theory Spec2Isabelle
  imports Complex_Main "HOL-Library.Multiset"
begin

section \<open>Values, errors and the direction table\<close>

text \<open>
  The module \<^verbatim>\<open>extras/multi_axis_probe.py\<close> works on Python lists of floats. A
  position is a \<open>real list\<close>: the toolhead reports four coordinates, a probe result
  is the slice \<^verbatim>\<open>epos[:3]\<close>. Floats are modelled as reals, so rounding is not
  part of the model. Every Python exception the module can raise is a value of
  \<open>error\<close>; \<^verbatim>\<open>printer.command_error\<close> and \<^verbatim>\<open>gcmd.error\<close> are the same class of
  the host and carry their message. Names are those of the source, without the
  leading underscore of its private methods.
\<close>

type_synonym position = "real list"

datatype error =
    CommandError string
  | KeyError
  | IndexError
  | AttributeError
  | ZeroDivisionError
  | ValueError
  | UnboundLocalError

definition direction_types :: "string \<Rightarrow> (nat \<times> int) option" where
  "direction_types =
     map_of [(''x+'', (0, 1)), (''x-'', (0, - 1)),
             (''y+'', (1, 1)), (''y-'', (1, - 1)),
             (''z+'', (2, 1)), (''z-'', (2, - 1))]"

definition HINT_TIMEOUT :: string where
  "HINT_TIMEOUT =
     [CHR 0x0A] @ ''If the probe did not move far enough to trigger, then'' @
     [CHR 0x0A] @ ''consider reducing the Z axis minimum position so the probe'' @
     [CHR 0x0A] @ ''can travel further (the Z minimum position can be negative).'' @
     [CHR 0x0A]"

text \<open>Python's \<^verbatim>\<open>xs[i]\<close> and \<^verbatim>\<open>xs[i] = v\<close> raise IndexError out of range.\<close>

definition py_index :: "'a list \<Rightarrow> nat \<Rightarrow> error + 'a" where
  "py_index xs i = (if i < length xs then Inr (xs ! i) else Inl IndexError)"

definition py_store :: "'a list \<Rightarrow> nat \<Rightarrow> 'a \<Rightarrow> error + 'a list" where
  "py_store xs i v = (if i < length xs then Inr (xs[i := v]) else Inl IndexError)"

text \<open>Python's \<^verbatim>\<open>max\<close> and \<^verbatim>\<open>min\<close> of a list raise ValueError on the empty list.\<close>

definition py_max :: "real list \<Rightarrow> error + real" where
  "py_max xs = (case xs of [] \<Rightarrow> Inl ValueError | x # ys \<Rightarrow> Inr (fold max ys x))"

definition py_min :: "real list \<Rightarrow> error + real" where
  "py_min xs = (case xs of [] \<Rightarrow> Inl ValueError | x # ys \<Rightarrow> Inr (fold min ys x))"

text \<open>Python's \<^verbatim>\<open>needle in haystack\<close> on strings.\<close>

fun starts_with :: "string \<Rightarrow> string \<Rightarrow> bool" where
  "starts_with [] hay = True"
| "starts_with (c # cs) [] = False"
| "starts_with (c # cs) (h # hs) = (c = h \<and> starts_with cs hs)"

fun str_in :: "string \<Rightarrow> string \<Rightarrow> bool" where
  "str_in needle [] = (needle = [])"
| "str_in needle (h # hs) = (starts_with needle (h # hs) \<or> str_in needle hs)"

section \<open>Sample statistics\<close>

text \<open>
  \<^verbatim>\<open>_calc_mean\<close>: \<^verbatim>\<open>[sum([pos[i] for pos in positions]) / count for i in range(3)]\<close>.
  A position with fewer than three coordinates raises IndexError, the empty
  list divides by zero.
\<close>

definition calc_mean :: "position list \<Rightarrow> error + position" where
  "calc_mean positions =
     (if list_ex (\<lambda>pos. length pos < 3) positions then Inl IndexError
      else if positions = [] then Inl ZeroDivisionError
      else Inr (map (\<lambda>i. sum_list (map (\<lambda>pos. pos ! i) positions)
                            / real (length positions)) [0, 1, 2]))"

text \<open>
  \<^verbatim>\<open>_calc_median\<close>: Python's \<^verbatim>\<open>sorted\<close> is a stable sort, as is \<open>sort_key\<close>.
  The key \<^verbatim>\<open>p[axis]\<close> is evaluated on every element and raises IndexError on a
  position that is too short. The slice \<^verbatim>\<open>[middle - 1:middle + 1]\<close> is only reached
  for an even length; it is empty for the empty list.
\<close>

definition calc_median :: "position list \<Rightarrow> nat \<Rightarrow> error + position" where
  "calc_median positions axis =
     (if list_ex (\<lambda>p. \<not> axis < length p) positions then Inl IndexError
      else
        let axis_sorted = sort_key (\<lambda>p. p ! axis) positions;
            middle = length positions div 2
        in if length positions mod 2 = 1 then Inr (axis_sorted ! middle)
           else calc_mean (take 2 (drop (middle - 1) axis_sorted)))"

definition calculate_results :: "position list \<Rightarrow> string \<Rightarrow> nat \<Rightarrow> error + position" where
  "calculate_results positions samples_result axis =
     (if samples_result = ''median'' then calc_median positions axis
      else calc_mean positions)"

text \<open>
  The module-level \<^verbatim>\<open>calc_probe_average\<close>, used by the accuracy command: its
  median sorts on \<^verbatim>\<open>p[2]\<close>.
\<close>

definition calc_probe_average :: "position list \<Rightarrow> string \<Rightarrow> error + position" where
  "calc_probe_average positions method =
     (if method \<noteq> ''median'' then calc_mean positions
      else if list_ex (\<lambda>p. \<not> 2 < length p) positions then Inl IndexError
      else
        let z_sorted = sort_key (\<lambda>p. p ! 2) positions;
            middle = length positions div 2
        in if length positions mod 2 = 1 then Inr (z_sorted ! middle)
           else calc_mean (take 2 (drop (middle - 1) z_sorted)))"

section \<open>The host: toolhead, kinematics, probing hardware, events\<close>

text \<open>
  The module reaches the machine through objects of the host that are not part
  of it. They are modelled by their contracts (section 6 of the specification):
  the toolhead holds a commanded position, \<^verbatim>\<open>get_position\<close> returns a fresh copy
  of it and \<^verbatim>\<open>manual_move\<close> moves there; the probing move of the homing module
  either returns the trigger position or raises a command error with a message,
  and leaves the toolhead at some position. What the hardware answers is a
  parameter of the model (\<open>probing_hw\<close>, indexed by the number of probing moves
  made so far, the axis, the target and the speed), as is the effect of the
  configured \<^verbatim>\<open>deactivate_gcode\<close> script. Every call that leaves the module is
  appended to \<open>trace\<close>, so that theorems can speak about the moves made.
  Logging and \<^verbatim>\<open>respond_info\<close> only print and are left out, apart from the
  index errors their format strings can raise.
\<close>

datatype probe_outcome =
    Triggered "real list" "real list"
  | Failed string "real list"

datatype event =
    ProbingMove nat "real list" real probe_outcome
  | ManualMove "real list" real
  | SendEvent string position
  | MultiProbeBegin nat
  | MultiProbeEnd nat
  | LogException error

record printer =
  toolhead_position :: "real list"
  homed_axes :: string
  axis_minimum :: "real list option"
  axis_maximum :: "real list option"
  probing_hw :: "nat \<Rightarrow> nat \<Rightarrow> real list \<Rightarrow> real \<Rightarrow> probe_outcome"
  probe_calls :: nat
  deactivate_gcode :: "real list \<Rightarrow> string + real list"
  trace :: "event list"

definition manual_move :: "real list \<Rightarrow> real \<Rightarrow> printer \<Rightarrow> printer" where
  "manual_move coord spd pr =
     pr\<lparr>toolhead_position := coord, trace := trace pr @ [ManualMove coord spd]\<rparr>"

definition send_event :: "string \<Rightarrow> position \<Rightarrow> printer \<Rightarrow> printer" where
  "send_event name pos pr = pr\<lparr>trace := trace pr @ [SendEvent name pos]\<rparr>"

text \<open>
  The command object: the overrides a command may carry, already parsed. The
  getters of the host return the default when the parameter is absent and raise
  the command error when a bound (\<^verbatim>\<open>above\<close>, \<^verbatim>\<open>minval\<close>) is violated. The text
  of that error is the host's; here it only names the parameter.
\<close>

record gcmd =
  PROBE_SPEED :: "real option"
  MAX_DISTANCE :: "real option"
  LIFT_SPEED :: "real option"
  SAMPLES :: "int option"
  SAMPLE_RETRACT_DIST :: "real option"
  SAMPLES_TOLERANCE :: "real option"
  SAMPLES_TOLERANCE_RETRIES :: "int option"
  SAMPLES_RESULT :: "string option"

definition bnd :: "error + 'a \<Rightarrow> ('a \<Rightarrow> error + 'b) \<Rightarrow> error + 'b" where
  "bnd m f = (case m of Inl e \<Rightarrow> Inl e | Inr x \<Rightarrow> f x)"

definition get_float_above :: "string \<Rightarrow> real option \<Rightarrow> real \<Rightarrow> real \<Rightarrow> error + real" where
  "get_float_above name v dflt bound =
     (case v of None \<Rightarrow> Inr dflt
      | Some x \<Rightarrow> if bound < x then Inr x
                  else Inl (CommandError (''Error on parameter '' @ name)))"

definition get_float_minval :: "string \<Rightarrow> real option \<Rightarrow> real \<Rightarrow> real \<Rightarrow> error + real" where
  "get_float_minval name v dflt minval =
     (case v of None \<Rightarrow> Inr dflt
      | Some x \<Rightarrow> if minval \<le> x then Inr x
                  else Inl (CommandError (''Error on parameter '' @ name)))"

definition get_int_minval :: "string \<Rightarrow> int option \<Rightarrow> int \<Rightarrow> int \<Rightarrow> error + int" where
  "get_int_minval name v dflt minval =
     (case v of None \<Rightarrow> Inr dflt
      | Some x \<Rightarrow> if minval \<le> x then Inr x
                  else Inl (CommandError (''Error on parameter '' @ name)))"

section \<open>The endstop wrapper\<close>

datatype multi_state = OFF | FIRST | ON

record probe_endstop_wrapper =
  stow_on_each_sample :: bool
  multi :: multi_state

definition raise_probe :: "printer \<Rightarrow> (error + unit) \<times> printer" where
  "raise_probe pr =
     (let start_pos = toolhead_position pr in
      case deactivate_gcode pr start_pos of
        Inl msg \<Rightarrow> (Inl (CommandError msg), pr)
      | Inr new_pos \<Rightarrow>
          let pr1 = pr\<lparr>toolhead_position := new_pos\<rparr> in
          if take 3 new_pos \<noteq> take 3 start_pos
          then (Inl (CommandError ''Toolhead moved during probe deactivate_gcode script''), pr1)
          else (Inr (), pr1))"

definition multi_probe_begin :: "probe_endstop_wrapper \<Rightarrow> probe_endstop_wrapper" where
  "multi_probe_begin w = (if stow_on_each_sample w then w else w\<lparr>multi := FIRST\<rparr>)"

definition multi_probe_end ::
  "probe_endstop_wrapper \<Rightarrow> printer \<Rightarrow> (error + unit) \<times> probe_endstop_wrapper \<times> printer" where
  "multi_probe_end w pr =
     (if stow_on_each_sample w then (Inr (), w, pr)
      else case raise_probe pr of
             (Inl e, pr1) \<Rightarrow> (Inl e, w, pr1)
           | (Inr u, pr1) \<Rightarrow> (Inr (), w\<lparr>multi := OFF\<rparr>, pr1))"

section \<open>The probing session\<close>

text \<open>The fields of \<^verbatim>\<open>ProbeSessionHelper\<close>.\<close>

record session =
  speed :: real
  lift_speed :: real
  max_distance :: real
  sample_count :: int
  sample_retract_dist :: real
  samples_result :: string
  samples_tolerance :: real
  samples_retries :: int
  multi_probe_pending :: bool
  results :: "position list"
  mcu_probes :: "probe_endstop_wrapper list"

text \<open>The dictionary returned by \<^verbatim>\<open>get_probe_params\<close>.\<close>

record probe_params =
  p_probe_speed :: real
  p_lift_speed :: real
  p_max_distance :: real
  p_samples :: int
  p_sample_retract_dist :: real
  p_samples_tolerance :: real
  p_samples_tolerance_retries :: int
  p_samples_result :: string

definition probe_state_error :: error where
  "probe_state_error = CommandError ''Internal probe error - start/end probe session mismatch''"

definition start_probe_session ::
  "string \<Rightarrow> session \<Rightarrow> printer \<Rightarrow> (error + unit) \<times> session \<times> printer" where
  "start_probe_session direction s pr =
     (if multi_probe_pending s then (Inl probe_state_error, s, pr)
      else case direction_types direction of
        None \<Rightarrow> (Inl KeyError, s, pr)
      | Some (axis, sense) \<Rightarrow>
          (case py_index (mcu_probes s) axis of
             Inl e \<Rightarrow> (Inl e, s, pr)
           | Inr w \<Rightarrow>
               (Inr (),
                s\<lparr>mcu_probes := (mcu_probes s)[axis := multi_probe_begin w],
                  multi_probe_pending := True,
                  results := []\<rparr>,
                pr\<lparr>trace := trace pr @ [MultiProbeBegin axis]\<rparr>)))"

text \<open>
  \<^verbatim>\<open>end_probe_session\<close> clears the buffer and the flag before it calls
  \<^verbatim>\<open>multi_probe_end\<close>, so both stay cleared when that call raises.
\<close>

definition end_probe_session ::
  "string \<Rightarrow> session \<Rightarrow> printer \<Rightarrow> (error + unit) \<times> session \<times> printer" where
  "end_probe_session direction s pr =
     (if \<not> multi_probe_pending s then (Inl probe_state_error, s, pr)
      else case direction_types direction of
        None \<Rightarrow> (Inl KeyError, s, pr)
      | Some (axis, sense) \<Rightarrow>
          let s1 = s\<lparr>results := [], multi_probe_pending := False\<rparr> in
          (case py_index (mcu_probes s1) axis of
             Inl e \<Rightarrow> (Inl e, s1, pr)
           | Inr w \<Rightarrow>
               (case multi_probe_end w (pr\<lparr>trace := trace pr @ [MultiProbeEnd axis]\<rparr>) of
                  (r, w1, pr1) \<Rightarrow> (r, s1\<lparr>mcu_probes := (mcu_probes s1)[axis := w1]\<rparr>, pr1))))"

text \<open>
  \<^verbatim>\<open>_handle_command_error\<close> calls \<^verbatim>\<open>end_probe_session()\<close> with no argument, that
  is with the default direction \<^verbatim>\<open>'z-'\<close>; its bare \<^verbatim>\<open>except\<close> logs whatever is
  raised and returns.
\<close>

definition handle_command_error :: "session \<Rightarrow> printer \<Rightarrow> session \<times> printer" where
  "handle_command_error s pr =
     (if multi_probe_pending s
      then case end_probe_session ''z-'' s pr of
             (Inl e, s1, pr1) \<Rightarrow> (s1, pr1\<lparr>trace := trace pr1 @ [LogException e]\<rparr>)
           | (Inr u, s1, pr1) \<Rightarrow> (s1, pr1)
      else (s, pr))"

definition get_probe_params :: "session \<Rightarrow> gcmd \<Rightarrow> error + probe_params" where
  "get_probe_params s g =
     bnd (get_float_above ''PROBE_SPEED'' (PROBE_SPEED g) (speed s) 0) (\<lambda>probe_speed.
     bnd (get_float_above ''MAX_DISTANCE'' (MAX_DISTANCE g) (max_distance s) 0) (\<lambda>max_dist.
     bnd (get_float_above ''LIFT_SPEED'' (LIFT_SPEED g) (lift_speed s) 0) (\<lambda>lift.
     bnd (get_int_minval ''SAMPLES'' (SAMPLES g) (sample_count s) 1) (\<lambda>samples.
     bnd (get_float_above ''SAMPLE_RETRACT_DIST'' (SAMPLE_RETRACT_DIST g)
            (sample_retract_dist s) 0) (\<lambda>retract_dist.
     bnd (get_float_minval ''SAMPLES_TOLERANCE'' (SAMPLES_TOLERANCE g)
            (samples_tolerance s) 0) (\<lambda>tolerance.
     bnd (get_int_minval ''SAMPLES_TOLERANCE_RETRIES'' (SAMPLES_TOLERANCE_RETRIES g)
            (samples_retries s) 0) (\<lambda>retries.
     Inr \<lparr>p_probe_speed = probe_speed,
          p_lift_speed = lift,
          p_max_distance = max_dist,
          p_samples = samples,
          p_sample_retract_dist = retract_dist,
          p_samples_tolerance = tolerance,
          p_samples_tolerance_retries = retries,
          p_samples_result =
            (case SAMPLES_RESULT g of None \<Rightarrow> samples_result s | Some r \<Rightarrow> r)\<rparr>)))))))"

definition pull_probed_results :: "session \<Rightarrow> position list \<times> session" where
  "pull_probed_results s = (results s, s\<lparr>results := []\<rparr>)"

section \<open>One contact-detect move\<close>

definition check_homed :: "printer \<Rightarrow> error + unit" where
  "check_homed pr =
     (if \<not> str_in ''x'' (homed_axes pr) \<or> \<not> str_in ''y'' (homed_axes pr)
         \<or> \<not> str_in ''z'' (homed_axes pr)
      then Inl (CommandError ''Must home before probe'')
      else Inr ())"

text \<open>
  \<^verbatim>\<open>_get_target_position\<close>. The guard tests \<^verbatim>\<open>'axis_minimum'\<close> twice and raises
  through \<^verbatim>\<open>self.gcode\<close>, an attribute the class never sets, so a status without
  \<^verbatim>\<open>axis_minimum\<close> ends in AttributeError and one without \<^verbatim>\<open>axis_maximum\<close> in
  KeyError when it is read. The travel is the configured \<^verbatim>\<open>self.max_distance\<close>.
\<close>

definition get_target_position :: "string \<Rightarrow> session \<Rightarrow> printer \<Rightarrow> error + real list" where
  "get_target_position direction s pr =
     (case direction_types direction of
        None \<Rightarrow> Inl KeyError
      | Some (axis, sense) \<Rightarrow>
          let pos = toolhead_position pr in
          (case axis_minimum pr of
             None \<Rightarrow> Inl AttributeError
           | Some amin \<Rightarrow>
               if sense > 0 then
                 bnd (py_index pos axis) (\<lambda>c.
                   case axis_maximum pr of
                     None \<Rightarrow> Inl KeyError
                   | Some amax \<Rightarrow>
                       bnd (py_index amax axis) (\<lambda>m.
                         py_store pos axis (min (c + max_distance s) m)))
               else
                 bnd (py_index pos axis) (\<lambda>c.
                   bnd (py_index amin axis) (\<lambda>m.
                     py_store pos axis (max (c - max_distance s) m)))))"

text \<open>
  \<^verbatim>\<open>_probe\<close>: only the probing move is inside the \<^verbatim>\<open>try\<close>. A command error is
  raised again with its message, to which \<^verbatim>\<open>HINT_TIMEOUT\<close> is appended when the
  message contains \<^verbatim>\<open>Timeout during endstop homing\<close>.
\<close>

definition probe :: "real \<Rightarrow> string \<Rightarrow> session \<Rightarrow> printer \<Rightarrow> (error + position) \<times> printer" where
  "probe spd direction s pr =
     (case check_homed pr of
        Inl e \<Rightarrow> (Inl e, pr)
      | Inr u \<Rightarrow>
     (case direction_types direction of
        None \<Rightarrow> (Inl KeyError, pr)
      | Some (axis, sense) \<Rightarrow>
     (case get_target_position direction s pr of
        Inl e \<Rightarrow> (Inl e, pr)
      | Inr pos \<Rightarrow>
     (case py_index (mcu_probes s) axis of
        Inl e \<Rightarrow> (Inl e, pr)
      | Inr w \<Rightarrow>
          let outcome = probing_hw pr (probe_calls pr) axis pos spd;
              pr1 = pr\<lparr>probe_calls := Suc (probe_calls pr),
                       trace := trace pr @ [ProbingMove axis pos spd outcome]\<rparr>
          in (case outcome of
                Failed reason halt \<Rightarrow>
                  (Inl (CommandError
                          (if str_in ''Timeout during endstop homing'' reason
                           then reason @ HINT_TIMEOUT else reason)),
                   pr1\<lparr>toolhead_position := halt\<rparr>)
              | Triggered epos halt \<Rightarrow>
                  (Inr (take 3 epos), pr1\<lparr>toolhead_position := halt\<rparr>))))))"

section \<open>Bounce refinement\<close>

definition bounce_count :: nat where
  "bounce_count = 3"

text \<open>
  The body of the loop of \<^verbatim>\<open>_bouncing_probe\<close>. The speed is multiplied by 0.1
  before the retract distance is computed from it; the lift speed is computed
  once, before the loop, and passed in. \<^verbatim>\<open>liftpos\<close> is the list \<^verbatim>\<open>probe_start\<close>
  itself, so its update is carried to the next cycle.
\<close>

definition bounce_cycle ::
  "string \<Rightarrow> nat \<Rightarrow> int \<Rightarrow> real \<Rightarrow> session \<Rightarrow> real \<Rightarrow> real list \<Rightarrow> printer
     \<Rightarrow> (error + position \<times> real \<times> real list) \<times> printer" where
  "bounce_cycle direction axis sense bouncing_lift_speed s bouncing_speed probe_start pr =
     (case probe bouncing_speed direction s pr of
        (Inl e, pr1) \<Rightarrow> (Inl e, pr1)
      | (Inr pos, pr1) \<Rightarrow>
          let bouncing_speed1 = bouncing_speed * 0.1;
              bouncing_retract_dist = bouncing_speed1 * 3.0
          in (case py_index pos axis of
                Inl e \<Rightarrow> (Inl e, pr1)
              | Inr c \<Rightarrow>
                  (case py_store probe_start axis
                          (c - real_of_int sense * bouncing_retract_dist) of
                     Inl e \<Rightarrow> (Inl e, pr1)
                   | Inr liftpos \<Rightarrow>
                       (Inr (pos, bouncing_speed1, liftpos),
                        manual_move liftpos bouncing_lift_speed pr1))))"

function bounce_loop ::
  "string \<Rightarrow> nat \<Rightarrow> int \<Rightarrow> real \<Rightarrow> session \<Rightarrow> nat \<Rightarrow> real \<Rightarrow> real list \<Rightarrow> position option
     \<Rightarrow> printer \<Rightarrow> (error + position option) \<times> printer" where
  "bounce_loop direction axis sense bouncing_lift_speed s bounces bouncing_speed probe_start
       pos pr =
     (if bounces < bounce_count then
        (case bounce_cycle direction axis sense bouncing_lift_speed s bouncing_speed
                probe_start pr of
           (Inl e, pr1) \<Rightarrow> (Inl e, pr1)
         | (Inr (pos1, bouncing_speed1, liftpos), pr1) \<Rightarrow>
             bounce_loop direction axis sense bouncing_lift_speed s (Suc bounces)
               bouncing_speed1 liftpos (Some pos1) pr1)
      else (Inr pos, pr))"
  by pat_completeness auto
termination
  by (relation "measure (\<lambda>(direction, axis, sense, ls, s, bounces, rest). bounce_count - bounces)")
     auto

text \<open>
  \<^verbatim>\<open>_bouncing_probe\<close>. After the loop the event is sent with \<^verbatim>\<open>pos\<close>, the message
  formats \<^verbatim>\<open>pos[0]\<close>, \<^verbatim>\<open>pos[1]\<close>, \<^verbatim>\<open>pos[2]\<close>, and \<^verbatim>\<open>pos\<close> is returned.
\<close>

definition bouncing_probe ::
  "real \<Rightarrow> string \<Rightarrow> session \<Rightarrow> printer \<Rightarrow> (error + position) \<times> printer" where
  "bouncing_probe spd direction s pr =
     (let probe_start = toolhead_position pr in
      case direction_types direction of
        None \<Rightarrow> (Inl KeyError, pr)
      | Some (axis, sense) \<Rightarrow>
          (case bounce_loop direction axis sense (spd * 2.0) s 0 spd probe_start None pr of
             (Inl e, pr1) \<Rightarrow> (Inl e, pr1)
           | (Inr None, pr1) \<Rightarrow> (Inl UnboundLocalError, pr1)
           | (Inr (Some pos), pr1) \<Rightarrow>
               let pr2 = send_event ''probe:update_results'' pos pr1 in
               if length pos < 3 then (Inl IndexError, pr2) else (Inr pos, pr2)))"

section \<open>The tolerance-retry sampling loop\<close>

text \<open>
  The local variables of \<^verbatim>\<open>run_probe\<close> that its loop changes: \<^verbatim>\<open>retries\<close>,
  \<^verbatim>\<open>positions\<close>, the list \<^verbatim>\<open>start_position\<close> (which \<^verbatim>\<open>liftpos\<close> aliases), and
  the machine.
\<close>

record sampling =
  smp_retries :: int
  smp_positions :: "position list"
  smp_start_position :: "real list"
  smp_printer :: printer

text \<open>The retract at the end of the loop body, skipped once the buffer is full.\<close>

definition sample_retract ::
  "probe_params \<Rightarrow> nat \<Rightarrow> int \<Rightarrow> position \<Rightarrow> sampling \<Rightarrow> error \<times> printer + sampling" where
  "sample_retract params axis sense pos st =
     (if int (length (smp_positions st)) < p_samples params then
        (case py_index pos axis of
           Inl e \<Rightarrow> Inl (e, smp_printer st)
         | Inr c \<Rightarrow>
             (case py_store (smp_start_position st) axis
                     (c - real_of_int sense * p_sample_retract_dist params) of
                Inl e \<Rightarrow> Inl (e, smp_printer st)
              | Inr liftpos \<Rightarrow>
                  Inr (st\<lparr>smp_start_position := liftpos,
                          smp_printer := manual_move liftpos (p_lift_speed params)
                                           (smp_printer st)\<rparr>)))
      else Inr st)"

text \<open>One pass through the body of the \<^verbatim>\<open>while\<close> loop of \<^verbatim>\<open>run_probe\<close>.\<close>

definition sample_step ::
  "probe_params \<Rightarrow> string \<Rightarrow> nat \<Rightarrow> int \<Rightarrow> session \<Rightarrow> sampling \<Rightarrow> error \<times> printer + sampling" where
  "sample_step params direction axis sense s st =
     (case bouncing_probe (p_probe_speed params) direction s (smp_printer st) of
        (Inl e, pr1) \<Rightarrow> Inl (e, pr1)
      | (Inr pos, pr1) \<Rightarrow>
          let positions1 = smp_positions st @ [pos] in
          if list_ex (\<lambda>p. \<not> axis < length p) positions1 then Inl (IndexError, pr1)
          else
            let axis_positions = map (\<lambda>p. p ! axis) positions1 in
            (case py_max axis_positions of
               Inl e \<Rightarrow> Inl (e, pr1)
             | Inr mx \<Rightarrow>
                 (case py_min axis_positions of
                    Inl e \<Rightarrow> Inl (e, pr1)
                  | Inr mn \<Rightarrow>
                      if mx - mn > p_samples_tolerance params then
                        if smp_retries st \<ge> p_samples_tolerance_retries params
                        then Inl (CommandError ''Probe samples exceed samples_tolerance'', pr1)
                        else sample_retract params axis sense pos
                               (st\<lparr>smp_retries := smp_retries st + 1,
                                   smp_positions := [],
                                   smp_printer := pr1\<rparr>)
                      else sample_retract params axis sense pos
                             (st\<lparr>smp_positions := positions1, smp_printer := pr1\<rparr>))))"

lemma sample_retract_keeps:
  "sample_retract params axis sense pos st = Inr st' \<Longrightarrow>
     smp_retries st' = smp_retries st \<and> smp_positions st' = smp_positions st"
  by (auto simp: sample_retract_def split: if_splits sum.splits)

lemma sample_step_progress:
  assumes "sample_step params direction axis sense s st = Inr st'"
  shows "(smp_retries st' = smp_retries st + 1
            \<and> smp_retries st < p_samples_tolerance_retries params
            \<and> smp_positions st' = [])
         \<or> (smp_retries st' = smp_retries st
            \<and> length (smp_positions st') = Suc (length (smp_positions st)))"
  using assms
  by (auto simp: sample_step_def Let_def
           split: prod.splits sum.splits if_splits dest!: sample_retract_keeps)

function sample_loop ::
  "probe_params \<Rightarrow> string \<Rightarrow> nat \<Rightarrow> int \<Rightarrow> session \<Rightarrow> sampling \<Rightarrow> error \<times> printer + sampling" where
  "sample_loop params direction axis sense s st =
     (if int (length (smp_positions st)) < p_samples params then
        (case sample_step params direction axis sense s st of
           Inl e \<Rightarrow> Inl e
         | Inr st1 \<Rightarrow> sample_loop params direction axis sense s st1)
      else Inr st)"
  by pat_completeness auto
termination
proof (relation "measures
    [\<lambda>(params, direction, axis, sense, s, st).
        nat (p_samples_tolerance_retries params - smp_retries st),
     \<lambda>(params, direction, axis, sense, s, st).
        nat (p_samples params - int (length (smp_positions st)))]")
  show "wf (measures
    [\<lambda>(params, direction, axis, sense, s, st).
        nat (p_samples_tolerance_retries params - smp_retries st),
     \<lambda>(params, direction, axis, sense, s, st).
        nat (p_samples params - int (length (smp_positions st)))])"
    by simp
next
  fix params :: probe_params and direction :: string and axis :: nat and sense :: int
    and s :: session and st st1 :: sampling
  assume guard: "int (length (smp_positions st)) < p_samples params"
    and step: "sample_step params direction axis sense s st = Inr st1"
  from sample_step_progress [OF step] guard
  show "((params, direction, axis, sense, s, st1), (params, direction, axis, sense, s, st))
          \<in> measures
    [\<lambda>(params, direction, axis, sense, s, st).
        nat (p_samples_tolerance_retries params - smp_retries st),
     \<lambda>(params, direction, axis, sense, s, st).
        nat (p_samples params - int (length (smp_positions st)))]"
    by auto
qed

text \<open>The loop state on entry: \<^verbatim>\<open>retries = 0\<close>, \<^verbatim>\<open>positions = []\<close>.\<close>

definition sampling_start :: "printer \<Rightarrow> sampling" where
  "sampling_start pr =
     \<lparr>smp_retries = 0, smp_positions = [],
      smp_start_position = toolhead_position pr, smp_printer = pr\<rparr>"

text \<open>
  \<^verbatim>\<open>run_probe\<close>: the state check, the parameters, the direction check, the loop,
  then the aggregation and the only \<^verbatim>\<open>append\<close> to \<^verbatim>\<open>self.results\<close>.
\<close>

definition run_probe ::
  "gcmd \<Rightarrow> string \<Rightarrow> session \<Rightarrow> printer \<Rightarrow> (error + unit) \<times> session \<times> printer" where
  "run_probe g direction s pr =
     (if \<not> multi_probe_pending s then (Inl probe_state_error, s, pr)
      else case get_probe_params s g of
        Inl e \<Rightarrow> (Inl e, s, pr)
      | Inr params \<Rightarrow>
          (case direction_types direction of
             None \<Rightarrow> (Inl (CommandError ''Wrong value for DIRECTION.''), s, pr)
           | Some (axis, sense) \<Rightarrow>
               (case sample_loop params direction axis sense s (sampling_start pr) of
                  Inl (e, pr1) \<Rightarrow> (Inl e, s, pr1)
                | Inr st \<Rightarrow>
                    (case calculate_results (smp_positions st) (p_samples_result params) axis of
                       Inl e \<Rightarrow> (Inl e, s, smp_printer st)
                     | Inr result_position \<Rightarrow>
                         (Inr (), s\<lparr>results := results s @ [result_position]\<rparr>,
                          smp_printer st)))))"

section \<open>The accuracy report\<close>

text \<open>
  The statistics at the end of \<^verbatim>\<open>cmd_PROBE_ACCURACY\<close> (from ``Calculate maximum,
  minimum and average values'' on), over the positions pulled from the session:
  maximum, minimum, range, average, median and sigma. The deviations are taken
  from \<^verbatim>\<open>positions[i][2]\<close>.
\<close>

definition probe_accuracy_stats ::
  "nat \<Rightarrow> position list \<Rightarrow> error + real \<times> real \<times> real \<times> real \<times> real \<times> real" where
  "probe_accuracy_stats axis positions =
     (if list_ex (\<lambda>p. \<not> axis < length p) positions then Inl IndexError
      else
        bnd (py_max (map (\<lambda>p. p ! axis) positions)) (\<lambda>max_value.
        bnd (py_min (map (\<lambda>p. p ! axis) positions)) (\<lambda>min_value.
        let range_value = max_value - min_value in
        bnd (calc_probe_average positions ''average'') (\<lambda>avg.
        bnd (py_index avg axis) (\<lambda>avg_value.
        bnd (calc_probe_average positions ''median'') (\<lambda>med.
        bnd (py_index med axis) (\<lambda>median.
        let deviation_sum = fold (\<lambda>p acc. acc + (p ! 2 - avg_value)\<^sup>2) positions 0;
            sigma = sqrt (deviation_sum / real (length positions))
        in Inr (max_value, min_value, range_value, avg_value, median, sigma))))))))"

section \<open>The sampling loop as a transition system\<close>

text \<open>
  The spread of the buffered samples along the probing axis, as the
  specification words it: the largest minus the smallest coordinate.
\<close>

definition spread :: "nat \<Rightarrow> position list \<Rightarrow> real" where
  "spread axis positions =
     Max (set (map (\<lambda>p. p ! axis) positions)) - Min (set (map (\<lambda>p. p ! axis) positions))"

text \<open>
  The states the loop head sees: a state is reached from another by passes
  through the body made while the loop condition holds.
\<close>

inductive sampling_reach ::
  "probe_params \<Rightarrow> string \<Rightarrow> nat \<Rightarrow> int \<Rightarrow> session \<Rightarrow> sampling \<Rightarrow> sampling \<Rightarrow> bool"
  for params direction axis sense s st0 where
    reach_start: "sampling_reach params direction axis sense s st0 st0"
  | reach_step:
      "sampling_reach params direction axis sense s st0 st
       \<Longrightarrow> int (length (smp_positions st)) < p_samples params
       \<Longrightarrow> sample_step params direction axis sense s st = Inr st1
       \<Longrightarrow> sampling_reach params direction axis sense s st0 st1"

section \<open>Concrete machines and sessions\<close>

text \<open>
  A machine homed on all axes with the toolhead at Z = 10, whose probe triggers
  at the coordinate \<open>contact n\<close> on the \<open>n\<close>-th probing move, and a session with
  three samples per point, tolerance 0.1 and no retries.
\<close>

definition contact_printer :: "(nat \<Rightarrow> real) \<Rightarrow> printer" where
  "contact_printer contact =
     \<lparr>toolhead_position = [0, 0, 10, 0],
      homed_axes = ''xyz'',
      axis_minimum = Some [0, 0, - 5, 0],
      axis_maximum = Some [200, 200, 200, 0],
      probing_hw = (\<lambda>n axis target spd.
         Triggered (target[axis := contact n]) (target[axis := contact n])),
      probe_calls = 0,
      deactivate_gcode = (\<lambda>pos. Inr pos),
      trace = []\<rparr>"

definition steady_printer :: printer where
  "steady_printer = contact_printer (\<lambda>n. 1)"

definition drifting_printer :: printer where
  "drifting_printer =
     contact_printer (\<lambda>n. if n < 3 then 1 else if n < 6 then 1.05 else 1.25)"

definition timeout_printer :: printer where
  "timeout_printer =
     steady_printer\<lparr>probing_hw :=
       (\<lambda>n axis target spd. Failed ''Timeout during endstop homing'' target)\<rparr>"

definition example_session :: session where
  "example_session =
     \<lparr>speed = 5, lift_speed = 5, max_distance = 10, sample_count = 3,
      sample_retract_dist = 2, samples_result = ''average'',
      samples_tolerance = 0.1, samples_retries = 0,
      multi_probe_pending = False, results = [],
      mcu_probes = replicate 3 \<lparr>stow_on_each_sample = False, multi = OFF\<rparr>\<rparr>"

definition active_session :: session where
  "active_session = example_session\<lparr>multi_probe_pending := True\<rparr>"

definition example_gcmd :: gcmd where
  "example_gcmd =
     \<lparr>PROBE_SPEED = None, MAX_DISTANCE = None, LIFT_SPEED = None, SAMPLES = None,
      SAMPLE_RETRACT_DIST = None, SAMPLES_TOLERANCE = None,
      SAMPLES_TOLERANCE_RETRIES = None, SAMPLES_RESULT = None\<rparr>"

text \<open>
  The parameters \<^verbatim>\<open>get_probe_params\<close> yields for the session above, with a given
  number of tolerance retries, and the loop state of the drifting machine after
  two samples (Z = 1 and Z = 1.05). Three results of a probing in X for the
  accuracy report.
\<close>

definition example_params :: "int \<Rightarrow> probe_params" where
  "example_params max_retries =
     \<lparr>p_probe_speed = 5, p_lift_speed = 5, p_max_distance = 10, p_samples = 3,
      p_sample_retract_dist = 2, p_samples_tolerance = 0.1,
      p_samples_tolerance_retries = max_retries, p_samples_result = ''average''\<rparr>"

definition two_samples :: "int \<Rightarrow> sampling" where
  "two_samples max_retries =
     projr (sample_step (example_params max_retries) ''z-'' 2 (- 1) active_session
       (projr (sample_step (example_params max_retries) ''z-'' 2 (- 1) active_session
          (sampling_start drifting_printer))))"

definition x_results :: "position list" where
  "x_results = [[10, 0, 5], [10.1, 0, 5], [9.9, 0, 5]]"

section \<open>Auxiliary facts\<close>

declare bounce_loop.simps [simp del] sample_loop.simps [simp del]

lemmas example_defs =
  contact_printer_def steady_printer_def drifting_printer_def timeout_printer_def
  example_session_def active_session_def example_gcmd_def

lemmas probe_defs =
  probe_def check_homed_def direction_types_def get_target_position_def bnd_def
  py_index_def py_store_def Let_def

lemmas bounce_defs =
  bouncing_probe_def bounce_loop.simps bounce_cycle_def bounce_count_def manual_move_def
  send_event_def

lemmas sampling_defs =
  run_probe_def sampling_start_def sample_loop.simps sample_step_def sample_retract_def get_probe_params_def
  get_float_above_def get_float_minval_def get_int_minval_def py_max_def py_min_def
  calculate_results_def calc_mean_def

lemma direction_types_range:
  assumes "direction_types d = Some (axis, sense)"
  shows "axis < 3 \<and> (sense = 1 \<or> sense = - 1)"
  using assms by (auto simp: direction_types_def split: if_splits)

lemma take2_drop:
  assumes "Suc k < length ys"
  shows "take 2 (drop k ys) = [ys ! k, ys ! Suc k]"
proof -
  have "drop k ys = ys ! k # drop (Suc k) ys"
    using assms by (simp add: Cons_nth_drop_Suc)
  moreover have "drop (Suc k) ys = ys ! Suc k # drop (Suc (Suc k)) ys"
    using assms by (simp add: Cons_nth_drop_Suc)
  ultimately show ?thesis by (simp add: numeral_2_eq_2)
qed

lemma calc_mean_pair:
  assumes "3 \<le> length a" "3 \<le> length b"
  shows "calc_mean [a, b] =
           Inr [(a ! 0 + b ! 0) / 2, (a ! 1 + b ! 1) / 2, (a ! 2 + b ! 2) / 2]"
  using assms by (simp add: calc_mean_def)

lemma probe_Inr:
  assumes "probe v d s pr = (Inr pos, pr1)"
    and "direction_types d = Some (axis, sense)"
  shows "\<exists>target epos halt.
           pos = take 3 epos
         \<and> trace pr1 = trace pr @ [ProbingMove axis target v (Triggered epos halt)]"
  using assms
  by (auto simp: probe_def Let_def split: sum.splits option.splits probe_outcome.splits)

lemma bounce_cycle_Inr:
  assumes "bounce_cycle d axis sense ls s v start pr = (Inr (pos, v1, liftpos), pr1)"
    and "direction_types d = Some (axis, sense)"
  shows "v1 = v * 0.1 \<and> axis < length pos \<and> axis < length start
         \<and> liftpos = start[axis := pos ! axis - real_of_int sense * (v * 0.1 * 3.0)]
         \<and> (\<exists>target epos halt.
               pos = take 3 epos
             \<and> trace pr1 = trace pr @ [ProbingMove axis target v (Triggered epos halt),
                                       ManualMove liftpos ls])"
proof -
  from assms(1) obtain pr0 where
    p: "probe v d s pr = (Inr pos, pr0)" and
    rest: "v1 = v * 0.1" "axis < length pos" "axis < length start"
      "liftpos = start[axis := pos ! axis - real_of_int sense * (v * 0.1 * 3.0)]"
      "pr1 = manual_move liftpos ls pr0"
    by (auto simp: bounce_cycle_def Let_def py_index_def py_store_def
             split: prod.splits sum.splits if_splits)
  from probe_Inr [OF p assms(2)] obtain target epos halt where
    "pos = take 3 epos"
    "trace pr0 = trace pr @ [ProbingMove axis target v (Triggered epos halt)]"
    by blast
  then show ?thesis using rest by (auto simp: manual_move_def)
qed

lemma bounce_loop_unfold:
  assumes "bounce_loop d axis sense ls s n v start pos pr = (Inr r, pr')"
    and "n < 3"
  shows "\<exists>pos1 v1 lp1 pr1.
           bounce_cycle d axis sense ls s v start pr = (Inr (pos1, v1, lp1), pr1)
         \<and> bounce_loop d axis sense ls s (Suc n) v1 lp1 (Some pos1) pr1 = (Inr r, pr')"
  using assms
  by (subst (asm) bounce_loop.simps) (auto simp: bounce_count_def split: prod.splits sum.splits)

lemma bounce_loop_done:
  "bounce_loop d axis sense ls s (Suc (Suc (Suc 0))) v start pos pr = (Inr pos, pr)"
  by (subst bounce_loop.simps) (simp add: bounce_count_def)

text \<open>A bounce loop that returns has made three cycles, with these moves.\<close>

lemma bounce_loop_Inr:
  assumes run: "bounce_loop d axis sense ls s 0 v start None pr = (Inr r, pr')"
    and dir: "direction_types d = Some (axis, sense)"
  shows "\<exists>t1 e1 h1 l1 t2 e2 h2 l2 t3 e3 h3 l3.
           r = Some (take 3 e3)
         \<and> trace pr' = trace pr @
             [ProbingMove axis t1 v (Triggered e1 h1), ManualMove l1 ls,
              ProbingMove axis t2 (v * 0.1) (Triggered e2 h2), ManualMove l2 ls,
              ProbingMove axis t3 (v * 0.1 * 0.1) (Triggered e3 h3), ManualMove l3 ls]
         \<and> axis < length start
         \<and> axis < length (take 3 e1) \<and> axis < length (take 3 e2) \<and> axis < length (take 3 e3)
         \<and> l1 = start[axis := take 3 e1 ! axis - real_of_int sense * (v * 0.1 * 3.0)]
         \<and> l2 = l1[axis := take 3 e2 ! axis - real_of_int sense * (v * 0.1 * 0.1 * 3.0)]
         \<and> l3 = l2[axis := take 3 e3 ! axis
                             - real_of_int sense * (v * 0.1 * 0.1 * 0.1 * 3.0)]"
proof -
  from bounce_loop_unfold [OF run] obtain pos1 v1 lp1 pr1 where
    c1: "bounce_cycle d axis sense ls s v start pr = (Inr (pos1, v1, lp1), pr1)" and
    r1: "bounce_loop d axis sense ls s (Suc 0) v1 lp1 (Some pos1) pr1 = (Inr r, pr')"
    by auto
  from bounce_loop_unfold [OF r1] obtain pos2 v2 lp2 pr2 where
    c2: "bounce_cycle d axis sense ls s v1 lp1 pr1 = (Inr (pos2, v2, lp2), pr2)" and
    r2: "bounce_loop d axis sense ls s (Suc (Suc 0)) v2 lp2 (Some pos2) pr2 = (Inr r, pr')"
    by auto
  from bounce_loop_unfold [OF r2] obtain pos3 v3 lp3 pr3 where
    c3: "bounce_cycle d axis sense ls s v2 lp2 pr2 = (Inr (pos3, v3, lp3), pr3)" and
    r3: "bounce_loop d axis sense ls s (Suc (Suc (Suc 0))) v3 lp3 (Some pos3) pr3
           = (Inr r, pr')"
    by auto
  from r3 have fin: "r = Some pos3" "pr' = pr3"
    by (simp_all add: bounce_loop_done)
  note k1 = bounce_cycle_Inr [OF c1 dir]
  note k2 = bounce_cycle_Inr [OF c2 dir]
  note k3 = bounce_cycle_Inr [OF c3 dir]
  from k1 obtain t1 e1 h1 where
    a1: "pos1 = take 3 e1"
        "trace pr1 = trace pr @ [ProbingMove axis t1 v (Triggered e1 h1), ManualMove lp1 ls]"
    by blast
  from k2 obtain t2 e2 h2 where
    a2: "pos2 = take 3 e2"
        "trace pr2 = trace pr1 @ [ProbingMove axis t2 v1 (Triggered e2 h2), ManualMove lp2 ls]"
    by blast
  from k3 obtain t3 e3 h3 where
    a3: "pos3 = take 3 e3"
        "trace pr3 = trace pr2 @ [ProbingMove axis t3 v2 (Triggered e3 h3), ManualMove lp3 ls]"
    by blast
  have v1: "v1 = v * 0.1" and v2: "v2 = v * 0.1 * 0.1"
    using k1 k2 by simp_all
  have tr: "trace pr' = trace pr @
             [ProbingMove axis t1 v (Triggered e1 h1), ManualMove lp1 ls,
              ProbingMove axis t2 (v * 0.1) (Triggered e2 h2), ManualMove lp2 ls,
              ProbingMove axis t3 (v * 0.1 * 0.1) (Triggered e3 h3), ManualMove lp3 ls]"
    using a1(2) a2(2) a3(2) fin(2) v1 v2 by simp
  have l1: "lp1 = start[axis := take 3 e1 ! axis - real_of_int sense * (v * 0.1 * 3.0)]"
    using k1 a1(1) by simp
  have l2: "lp2 = lp1[axis := take 3 e2 ! axis - real_of_int sense * (v * 0.1 * 0.1 * 3.0)]"
    using k2 a2(1) v1 by simp
  have l3: "lp3 = lp2[axis := take 3 e3 ! axis
                                - real_of_int sense * (v * 0.1 * 0.1 * 0.1 * 3.0)]"
    using k3 a3(1) v2 by simp
  have lens: "axis < length start" "axis < length (take 3 e1)" "axis < length (take 3 e2)"
    "axis < length (take 3 e3)"
    using k1 k2 k3 a1(1) a2(1) a3(1) by simp_all
  show ?thesis
    using fin(1) a3(1) tr l1 l2 l3 lens by blast
qed

text \<open>The same for \<^verbatim>\<open>_bouncing_probe\<close>, whose lift speed is twice the initial speed.\<close>

lemma bouncing_probe_Inr:
  assumes run: "bouncing_probe v d s pr = (Inr p, pr')"
  shows "\<exists>axis sense t1 e1 h1 l1 t2 e2 h2 l2 t3 e3 h3 l3.
           direction_types d = Some (axis, sense)
         \<and> p = take 3 e3 \<and> length p = 3
         \<and> trace pr' = trace pr @
             [ProbingMove axis t1 v (Triggered e1 h1), ManualMove l1 (v * 2.0),
              ProbingMove axis t2 (v * 0.1) (Triggered e2 h2), ManualMove l2 (v * 2.0),
              ProbingMove axis t3 (v * 0.1 * 0.1) (Triggered e3 h3), ManualMove l3 (v * 2.0),
              SendEvent ''probe:update_results'' p]
         \<and> axis < length (toolhead_position pr)
         \<and> axis < length (take 3 e1) \<and> axis < length (take 3 e2) \<and> axis < length (take 3 e3)
         \<and> l1 = (toolhead_position pr)
                  [axis := take 3 e1 ! axis - real_of_int sense * (v * 0.1 * 3.0)]
         \<and> l2 = l1[axis := take 3 e2 ! axis - real_of_int sense * (v * 0.1 * 0.1 * 3.0)]
         \<and> l3 = l2[axis := take 3 e3 ! axis
                             - real_of_int sense * (v * 0.1 * 0.1 * 0.1 * 3.0)]"
proof -
  from run obtain axis sense where dir: "direction_types d = Some (axis, sense)"
    by (auto simp: bouncing_probe_def split: option.splits)
  from run dir obtain pr1 where
    loop: "bounce_loop d axis sense (v * 2.0) s 0 v (toolhead_position pr) None pr
             = (Inr (Some p), pr1)" and
    fin: "pr' = send_event ''probe:update_results'' p pr1" "\<not> length p < 3"
    by (auto simp: bouncing_probe_def Let_def
             split: prod.splits sum.splits option.splits if_splits)
  from bounce_loop_Inr [OF loop dir] obtain t1 e1 h1 l1 t2 e2 h2 l2 t3 e3 h3 l3 where
    k: "Some p = Some (take 3 e3)"
       "trace pr1 = trace pr @
             [ProbingMove axis t1 v (Triggered e1 h1), ManualMove l1 (v * 2.0),
              ProbingMove axis t2 (v * 0.1) (Triggered e2 h2), ManualMove l2 (v * 2.0),
              ProbingMove axis t3 (v * 0.1 * 0.1) (Triggered e3 h3), ManualMove l3 (v * 2.0)]"
       "axis < length (toolhead_position pr)"
       "axis < length (take 3 e1)" "axis < length (take 3 e2)" "axis < length (take 3 e3)"
       "l1 = (toolhead_position pr)
                  [axis := take 3 e1 ! axis - real_of_int sense * (v * 0.1 * 3.0)]"
       "l2 = l1[axis := take 3 e2 ! axis - real_of_int sense * (v * 0.1 * 0.1 * 3.0)]"
       "l3 = l2[axis := take 3 e3 ! axis - real_of_int sense * (v * 0.1 * 0.1 * 0.1 * 3.0)]"
    by blast
  from k(1) have p: "p = take 3 e3" by simp
  with fin(2) have len: "length p = 3" by simp
  have tr: "trace pr' = trace pr @
             [ProbingMove axis t1 v (Triggered e1 h1), ManualMove l1 (v * 2.0),
              ProbingMove axis t2 (v * 0.1) (Triggered e2 h2), ManualMove l2 (v * 2.0),
              ProbingMove axis t3 (v * 0.1 * 0.1) (Triggered e3 h3), ManualMove l3 (v * 2.0),
              SendEvent ''probe:update_results'' p]"
    using k(2) fin(1) by (simp add: send_event_def)
  show ?thesis
    using dir p len tr k(3-9) by blast
qed

lemma steady_bounce:
  "fst (bouncing_probe 5 ''z-'' example_session steady_printer) = Inr [0, 0, 1]"
  by (simp add: example_defs probe_defs bounce_defs)

lemma py_max_Max:
  assumes "xs \<noteq> []"
  shows "py_max xs = Inr (Max (set xs))"
proof (cases xs)
  case Nil
  with assms show ?thesis by simp
next
  case (Cons x ys)
  have "fold max ys x = Max (set (x # ys))"
    by (rule Max.set_eq_fold [symmetric])
  then show ?thesis using Cons by (simp add: py_max_def)
qed

lemma py_min_Min:
  assumes "xs \<noteq> []"
  shows "py_min xs = Inr (Min (set xs))"
proof (cases xs)
  case Nil
  with assms show ?thesis by simp
next
  case (Cons x ys)
  have "fold min ys x = Min (set (x # ys))"
    by (rule Min.set_eq_fold [symmetric])
  then show ?thesis using Cons by (simp add: py_min_def)
qed

lemma sample_step_unfold:
  assumes bp: "bouncing_probe (p_probe_speed params) d s (smp_printer st) = (Inr pos, pr1)"
    and ok: "\<forall>p \<in> set (smp_positions st @ [pos]). axis < length p"
  shows "sample_step params d axis sense s st =
           (if p_samples_tolerance params < spread axis (smp_positions st @ [pos]) then
              if p_samples_tolerance_retries params \<le> smp_retries st
              then Inl (CommandError ''Probe samples exceed samples_tolerance'', pr1)
              else sample_retract params axis sense pos
                     (st\<lparr>smp_retries := smp_retries st + 1, smp_positions := [],
                         smp_printer := pr1\<rparr>)
            else sample_retract params axis sense pos
                   (st\<lparr>smp_positions := smp_positions st @ [pos], smp_printer := pr1\<rparr>))"
proof -
  have ne: "map (\<lambda>p. p ! axis) (smp_positions st @ [pos]) \<noteq> []" by simp
  have le: "\<not> list_ex (\<lambda>p. \<not> axis < length p) (smp_positions st @ [pos])"
    using ok by (simp add: list_ex_iff)
  show ?thesis
    unfolding sample_step_def bp spread_def
    using le by (simp add: Let_def py_max_Max [OF ne] py_min_Min [OF ne] del: list_ex_append map_append)
qed

lemma sample_step_Inr:
  assumes "sample_step params d axis sense s st = Inr st1"
  shows "\<exists>pos pr1.
           bouncing_probe (p_probe_speed params) d s (smp_printer st) = (Inr pos, pr1)
         \<and> (\<forall>p \<in> set (smp_positions st @ [pos]). axis < length p)"
  using assms
  by (auto simp: sample_step_def Let_def list_ex_iff split: prod.splits sum.splits if_splits)

lemma sample_step_cases:
  assumes step: "sample_step params d axis sense s st = Inr st1"
  shows "\<exists>pos pr1.
           bouncing_probe (p_probe_speed params) d s (smp_printer st) = (Inr pos, pr1)
         \<and> (\<forall>p \<in> set (smp_positions st @ [pos]). axis < length p)
         \<and> (if p_samples_tolerance params < spread axis (smp_positions st @ [pos])
            then smp_retries st < p_samples_tolerance_retries params
               \<and> smp_retries st1 = smp_retries st + 1 \<and> smp_positions st1 = []
            else smp_retries st1 = smp_retries st
               \<and> smp_positions st1 = smp_positions st @ [pos])"
proof -
  from sample_step_Inr [OF step] obtain pos pr1 where
    bp: "bouncing_probe (p_probe_speed params) d s (smp_printer st) = (Inr pos, pr1)" and
    ok: "\<forall>p \<in> set (smp_positions st @ [pos]). axis < length p"
    by blast
  note u = sample_step_unfold [OF bp ok, of sense]
  have "if p_samples_tolerance params < spread axis (smp_positions st @ [pos])
            then smp_retries st < p_samples_tolerance_retries params
               \<and> smp_retries st1 = smp_retries st + 1 \<and> smp_positions st1 = []
            else smp_retries st1 = smp_retries st
               \<and> smp_positions st1 = smp_positions st @ [pos]"
    using step unfolding u
    by (auto split: if_splits dest!: sample_retract_keeps)
  with bp ok show ?thesis by blast
qed

lemma reach_invariant:
  assumes "sampling_reach params d axis sense s st0 st"
    and "0 \<le> smp_retries st0"
    and "int (length (smp_positions st0)) \<le> p_samples params"
    and "\<forall>p \<in> set (smp_positions st0). axis < length p"
  shows "0 \<le> smp_retries st
       \<and> int (length (smp_positions st)) \<le> p_samples params
       \<and> (\<forall>p \<in> set (smp_positions st). axis < length p)"
  using assms
proof (induction rule: sampling_reach.induct)
  case reach_start
  then show ?case by simp
next
  case (reach_step st st1)
  then have ih: "0 \<le> smp_retries st" "int (length (smp_positions st)) \<le> p_samples params"
    "\<forall>p \<in> set (smp_positions st). axis < length p"
    by simp_all
  from sample_step_cases [OF reach_step.hyps(3)] obtain pos pr1 where
    ok: "\<forall>p \<in> set (smp_positions st @ [pos]). axis < length p" and
    c: "if p_samples_tolerance params < spread axis (smp_positions st @ [pos])
            then smp_retries st < p_samples_tolerance_retries params
               \<and> smp_retries st1 = smp_retries st + 1 \<and> smp_positions st1 = []
            else smp_retries st1 = smp_retries st
               \<and> smp_positions st1 = smp_positions st @ [pos]"
    by blast
  show ?case
  proof (cases "p_samples_tolerance params < spread axis (smp_positions st @ [pos])")
    case True
    with c ih reach_step.hyps(2) show ?thesis by simp
  next
    case False
    with c have "smp_retries st1 = smp_retries st" "smp_positions st1 = smp_positions st @ [pos]"
      by simp_all
    with ih ok reach_step.hyps(2) show ?thesis by simp
  qed
qed

lemma reach_loop:
  assumes "sampling_reach params d axis sense s st0 st"
  shows "sample_loop params d axis sense s st0 = sample_loop params d axis sense s st"
  using assms
proof (induction rule: sampling_reach.induct)
  case reach_start
  show ?case by simp
next
  case (reach_step st st1)
  have "sample_loop params d axis sense s st = sample_loop params d axis sense s st1"
    using reach_step.hyps(2,3) by (subst sample_loop.simps) simp
  with reach_step.IH show ?case by simp
qed

lemma sample_loop_reach:
  assumes "sample_loop params d axis sense s st = Inr stf"
    and "sampling_reach params d axis sense s st0 st"
  shows "sampling_reach params d axis sense s st0 stf
       \<and> \<not> int (length (smp_positions stf)) < p_samples params"
  using assms
proof (induction params d axis sense s st rule: sample_loop.induct)
  case (1 params d axis sense s st)
  show ?case
  proof (cases "int (length (smp_positions st)) < p_samples params")
    case True
    from "1.prems"(1) True obtain st1 where
      step: "sample_step params d axis sense s st = Inr st1" and
      rest: "sample_loop params d axis sense s st1 = Inr stf"
      by (subst (asm) sample_loop.simps) (auto split: sum.splits)
    have "sampling_reach params d axis sense s st0 st1"
      using "1.prems"(2) True step by (rule reach_step)
    from "1.IH" [OF True step rest this] show ?thesis .
  next
    case False
    with "1.prems"(1) have "stf = st"
      by (subst (asm) sample_loop.simps) simp
    with False "1.prems"(2) show ?thesis by simp
  qed
qed

lemma first_step:
  "\<not> isl (sample_step (example_params m) ''z-'' 2 (- 1) active_session
            (sampling_start drifting_printer))"
  by (simp add: example_params_def sampling_start_def example_defs probe_defs bounce_defs sampling_defs)

lemma second_step:
  "\<not> isl (sample_step (example_params m) ''z-'' 2 (- 1) active_session
            (projr (sample_step (example_params m) ''z-'' 2 (- 1) active_session
               (sampling_start drifting_printer))))"
  by (simp add: example_params_def sampling_start_def example_defs probe_defs bounce_defs sampling_defs)

lemma two_samples_positions:
  "smp_positions (two_samples m) = [[0, 0, 1], [0, 0, 1.05]] \<and> smp_retries (two_samples m) = 0"
  by (simp add: two_samples_def example_params_def sampling_start_def example_defs probe_defs bounce_defs sampling_defs)

lemma third_bounce:
  "fst (bouncing_probe 5 ''z-'' active_session (smp_printer (two_samples m))) = Inr [0, 0, 1.25]"
  by (simp add: two_samples_def example_params_def sampling_start_def example_defs probe_defs bounce_defs sampling_defs)


lemma first_step_positions:
  "smp_positions (projr (sample_step (example_params m) ''z-'' 2 (- 1) active_session
            (sampling_start drifting_printer))) = [[0, 0, 1]]"
  by (simp add: example_params_def sampling_start_def example_defs probe_defs bounce_defs
        sampling_defs)

lemma two_samples_reach:
  "sampling_reach (example_params m) ''z-'' 2 (- 1) active_session
     (sampling_start drifting_printer) (two_samples m)"
proof -
  let ?P = "example_params m"
  let ?st0 = "sampling_start drifting_printer"
  let ?st1 = "projr (sample_step ?P ''z-'' 2 (- 1) active_session ?st0)"
  have r0: "sampling_reach ?P ''z-'' 2 (- 1) active_session ?st0 ?st0"
    by (rule reach_start)
  have g0: "int (length (smp_positions ?st0)) < p_samples ?P"
    by (simp add: sampling_start_def example_params_def)
  have s0: "sample_step ?P ''z-'' 2 (- 1) active_session ?st0 = Inr ?st1"
    using first_step [of m] by simp
  have r1: "sampling_reach ?P ''z-'' 2 (- 1) active_session ?st0 ?st1"
    using r0 g0 s0 by (rule reach_step)
  have g1: "int (length (smp_positions ?st1)) < p_samples ?P"
    using first_step_positions [of m] by (simp add: example_params_def)
  have s1: "sample_step ?P ''z-'' 2 (- 1) active_session ?st1 = Inr (two_samples m)"
    using second_step [of m] by (simp add: two_samples_def)
  show ?thesis
    using r1 g1 s1 by (rule reach_step)
qed

lemma third_step_retry:
  "\<not> isl (sample_step (example_params 1) ''z-'' 2 (- 1) active_session (two_samples 1))"
  by (simp add: two_samples_def example_params_def sampling_start_def example_defs probe_defs
        bounce_defs sampling_defs)

lemma third_spread:
  "spread 2 (smp_positions (two_samples m) @ [[0, 0, 1.25]]) = 0.25"
  by (simp add: two_samples_positions spread_def)

lemma sqrt25: "sqrt 25 = 5"
  by (rule real_sqrt_unique) simp_all

section \<open>Session state errors\<close>

text \<open>
  Claim C1. Calling \<^verbatim>\<open>start_probe_session\<close> while the session is pending, or
  \<^verbatim>\<open>run_probe\<close> or \<^verbatim>\<open>end_probe_session\<close> while it is not, raises the session
  state error (the command error ``Internal probe error - start/end probe
  session mismatch''), and leaves the session, hence its pending flag and its
  result buffer, and the machine as they were.
\<close>

theorem session_state_errors:
  "(multi_probe_pending s \<longrightarrow>
      start_probe_session d s pr = (Inl probe_state_error, s, pr))
   \<and> (\<not> multi_probe_pending s \<longrightarrow>
        run_probe g d s pr = (Inl probe_state_error, s, pr)
      \<and> end_probe_session d s pr = (Inl probe_state_error, s, pr))"
  by (simp add: start_probe_session_def run_probe_def end_probe_session_def)

theorem session_state_errors_witness:
  "start_probe_session ''z-'' active_session steady_printer
     = (Inl probe_state_error, active_session, steady_printer)
   \<and> run_probe example_gcmd ''z-'' example_session steady_printer
     = (Inl probe_state_error, example_session, steady_printer)
   \<and> end_probe_session ''z-'' example_session steady_printer
     = (Inl probe_state_error, example_session, steady_printer)"
  using session_state_errors [of active_session "''z-''" steady_printer example_gcmd]
    session_state_errors [of example_session "''z-''" steady_printer example_gcmd]
  by (simp add: active_session_def example_session_def)

section \<open>Bounce refinement: cycles, speeds and the result\<close>

text \<open>
  Claim C2. A bounce refinement that returns has made exactly three
  contact-detect and retract cycles, whatever the sample count of the session;
  the contact-detect move of cycle \<open>k\<close> ran at the initial speed times
  \<open>0.1 ^ (k - 1)\<close>; the returned position is the contact position of the third
  cycle, and it is the position carried by the one \<^verbatim>\<open>probe:update_results\<close>
  event, sent after the third retract.
\<close>

theorem bouncing_probe_three_cycles:
  assumes "bouncing_probe v d s pr = (Inr p, pr')"
  shows "\<exists>axis t1 o1 l1 s1 t2 o2 l2 s2 t3 e3 h3 l3 s3.
           trace pr' = trace pr @
             [ProbingMove axis t1 (v * 0.1 ^ 0) o1, ManualMove l1 s1,
              ProbingMove axis t2 (v * 0.1 ^ 1) o2, ManualMove l2 s2,
              ProbingMove axis t3 (v * 0.1 ^ 2) (Triggered e3 h3), ManualMove l3 s3,
              SendEvent ''probe:update_results'' p]
         \<and> p = take 3 e3"
proof -
  from bouncing_probe_Inr [OF assms]
  obtain axis t1 e1 h1 l1 t2 e2 h2 l2 t3 e3 h3 l3 where
    p: "p = take 3 e3" and
    tr: "trace pr' = trace pr @
             [ProbingMove axis t1 v (Triggered e1 h1), ManualMove l1 (v * 2.0),
              ProbingMove axis t2 (v * 0.1) (Triggered e2 h2), ManualMove l2 (v * 2.0),
              ProbingMove axis t3 (v * 0.1 * 0.1) (Triggered e3 h3), ManualMove l3 (v * 2.0),
              SendEvent ''probe:update_results'' p]"
    by blast
  have sq: "v * 0.1 ^ 2 = v * 0.1 * 0.1"
    by (simp add: power2_eq_square)
  have "trace pr' = trace pr @
             [ProbingMove axis t1 (v * 0.1 ^ 0) (Triggered e1 h1), ManualMove l1 (v * 2.0),
              ProbingMove axis t2 (v * 0.1 ^ 1) (Triggered e2 h2), ManualMove l2 (v * 2.0),
              ProbingMove axis t3 (v * 0.1 ^ 2) (Triggered e3 h3), ManualMove l3 (v * 2.0),
              SendEvent ''probe:update_results'' p]"
    unfolding sq using tr by simp
  with p show ?thesis by blast
qed

theorem bouncing_probe_three_cycles_witness:
  "bouncing_probe 5 ''z-'' example_session steady_printer
     = (Inr [0, 0, 1], snd (bouncing_probe 5 ''z-'' example_session steady_printer))
   \<and> (\<exists>axis t1 o1 l1 s1 t2 o2 l2 s2 t3 e3 h3 l3 s3.
         trace (snd (bouncing_probe 5 ''z-'' example_session steady_printer))
           = trace steady_printer @
             [ProbingMove axis t1 (5 * 0.1 ^ 0) o1, ManualMove l1 s1,
              ProbingMove axis t2 (5 * 0.1 ^ 1) o2, ManualMove l2 s2,
              ProbingMove axis t3 (5 * 0.1 ^ 2) (Triggered e3 h3), ManualMove l3 s3,
              SendEvent ''probe:update_results'' [0, 0, 1]]
       \<and> [0, 0, 1] = take 3 e3)"
proof -
  have run: "bouncing_probe 5 ''z-'' example_session steady_printer
     = (Inr [0, 0, 1], snd (bouncing_probe 5 ''z-'' example_session steady_printer))"
    using steady_bounce by (simp add: prod_eq_iff)
  from run bouncing_probe_three_cycles [OF run] show ?thesis by blast
qed

section \<open>Bounce refinement: the retract\<close>

text \<open>
  Claim C3 (as written: in each cycle the retract is by the cycle's approach
  speed times 3.0 at a lift speed of that speed times 2.0, and the speed decays
  only after the retract). It fails on the code. With an initial speed of 5 and
  contact at Z = 1, the first retract goes to Z = 2.5, a distance of 1.5 and not
  15, and the second cycle, which approaches at 0.5, lifts at 10 and not at 1.
\<close>

theorem bounce_retract_counterexample:
  "trace (snd (bouncing_probe 5 ''z-'' example_session steady_printer))
     = [ProbingMove 2 [0, 0, 0, 0] 5 (Triggered [0, 0, 1, 0] [0, 0, 1, 0]),
        ManualMove [0, 0, 5 / 2, 0] 10,
        ProbingMove 2 [0, 0, - 5, 0] (1 / 2) (Triggered [0, 0, 1, 0] [0, 0, 1, 0]),
        ManualMove [0, 0, 23 / 20, 0] 10,
        ProbingMove 2 [0, 0, - 5, 0] (1 / 20) (Triggered [0, 0, 1, 0] [0, 0, 1, 0]),
        ManualMove [0, 0, 203 / 200, 0] 10,
        SendEvent ''probe:update_results'' [0, 0, 1]]
   \<and> (5 / 2 :: real) \<noteq> 1 - (- 1) * (5 * 3.0)
   \<and> (10 :: real) \<noteq> 1 / 2 * 2.0"
  by (simp add: example_defs probe_defs bounce_defs)

text \<open>
  Claim C3, amended. In each cycle the speed is multiplied by 0.1 before the
  retract: with \<open>v\<close> the approach speed of the cycle, the retract moves the
  probing axis to the contact coordinate minus the sign times \<open>(v * 0.1) * 3.0\<close>,
  that is three times the speed of the next approach, and every retract runs at
  twice the initial speed of the refinement.
\<close>

theorem bouncing_probe_retracts:
  assumes "bouncing_probe v d s pr = (Inr p, pr')"
  shows "\<exists>axis sense t1 e1 h1 l1 t2 e2 h2 l2 t3 e3 h3 l3.
           direction_types d = Some (axis, sense)
         \<and> trace pr' = trace pr @
             [ProbingMove axis t1 v (Triggered e1 h1), ManualMove l1 (v * 2.0),
              ProbingMove axis t2 (v * 0.1) (Triggered e2 h2), ManualMove l2 (v * 2.0),
              ProbingMove axis t3 (v * 0.1 * 0.1) (Triggered e3 h3), ManualMove l3 (v * 2.0),
              SendEvent ''probe:update_results'' p]
         \<and> l1 ! axis = e1 ! axis - real_of_int sense * ((v * 0.1) * 3.0)
         \<and> l2 ! axis = e2 ! axis - real_of_int sense * ((v * 0.1 * 0.1) * 3.0)
         \<and> l3 ! axis = e3 ! axis - real_of_int sense * ((v * 0.1 * 0.1 * 0.1) * 3.0)"
proof -
  from bouncing_probe_Inr [OF assms]
  obtain axis sense t1 e1 h1 l1 t2 e2 h2 l2 t3 e3 h3 l3 where
    dir: "direction_types d = Some (axis, sense)" and
    tr: "trace pr' = trace pr @
             [ProbingMove axis t1 v (Triggered e1 h1), ManualMove l1 (v * 2.0),
              ProbingMove axis t2 (v * 0.1) (Triggered e2 h2), ManualMove l2 (v * 2.0),
              ProbingMove axis t3 (v * 0.1 * 0.1) (Triggered e3 h3), ManualMove l3 (v * 2.0),
              SendEvent ''probe:update_results'' p]" and
    len: "axis < length (toolhead_position pr)"
      "axis < length (take 3 e1)" "axis < length (take 3 e2)" "axis < length (take 3 e3)" and
    l1: "l1 = (toolhead_position pr)
                  [axis := take 3 e1 ! axis - real_of_int sense * (v * 0.1 * 3.0)]" and
    l2: "l2 = l1[axis := take 3 e2 ! axis - real_of_int sense * (v * 0.1 * 0.1 * 3.0)]" and
    l3: "l3 = l2[axis := take 3 e3 ! axis - real_of_int sense * (v * 0.1 * 0.1 * 0.1 * 3.0)]"
    by blast
  have c1: "l1 ! axis = e1 ! axis - real_of_int sense * ((v * 0.1) * 3.0)"
    using l1 len by simp
  have c2: "l2 ! axis = e2 ! axis - real_of_int sense * ((v * 0.1 * 0.1) * 3.0)"
    using l1 l2 len by simp
  have c3: "l3 ! axis = e3 ! axis - real_of_int sense * ((v * 0.1 * 0.1 * 0.1) * 3.0)"
    using l1 l2 l3 len by simp
  from dir tr c1 c2 c3 show ?thesis by blast
qed

theorem bouncing_probe_retracts_witness:
  "bouncing_probe 5 ''z-'' example_session steady_printer
     = (Inr [0, 0, 1], snd (bouncing_probe 5 ''z-'' example_session steady_printer))
   \<and> (\<exists>axis sense t1 e1 h1 l1 t2 e2 h2 l2 t3 e3 h3 l3.
           direction_types ''z-'' = Some (axis, sense)
         \<and> trace (snd (bouncing_probe 5 ''z-'' example_session steady_printer))
             = trace steady_printer @
             [ProbingMove axis t1 5 (Triggered e1 h1), ManualMove l1 (5 * 2.0),
              ProbingMove axis t2 (5 * 0.1) (Triggered e2 h2), ManualMove l2 (5 * 2.0),
              ProbingMove axis t3 (5 * 0.1 * 0.1) (Triggered e3 h3), ManualMove l3 (5 * 2.0),
              SendEvent ''probe:update_results'' [0, 0, 1]]
         \<and> l1 ! axis = e1 ! axis - real_of_int sense * ((5 * 0.1) * 3.0)
         \<and> l2 ! axis = e2 ! axis - real_of_int sense * ((5 * 0.1 * 0.1) * 3.0)
         \<and> l3 ! axis = e3 ! axis - real_of_int sense * ((5 * 0.1 * 0.1 * 0.1) * 3.0))"
proof -
  have run: "bouncing_probe 5 ''z-'' example_session steady_printer
     = (Inr [0, 0, 1], snd (bouncing_probe 5 ''z-'' example_session steady_printer))"
    using steady_bounce by (simp add: prod_eq_iff)
  from run bouncing_probe_retracts [OF run] show ?thesis by blast
qed

section \<open>The median\<close>

text \<open>
  Claim C6. For a non-empty list of positions and an axis, \<^verbatim>\<open>_calc_median\<close> works
  on the stable sort of the list by the coordinate of that axis: a list \<open>ys\<close>
  that is sorted by that coordinate, is a permutation of the input and keeps
  the input order among positions with equal coordinate. For an odd count the
  result is the middle element of \<open>ys\<close> as it is; for an even count it is the
  mean, coordinate by coordinate, of the two middle elements.
\<close>

theorem calc_median_stable_middle:
  assumes nonempty: "positions \<noteq> []"
    and coords: "\<forall>p \<in> set positions. 3 \<le> length p"
    and axis: "axis < 3"
  shows "\<exists>ys. sorted (map (\<lambda>p. p ! axis) ys)
            \<and> mset ys = mset positions
            \<and> (\<forall>k. filter (\<lambda>p. p ! axis = k) ys = filter (\<lambda>p. p ! axis = k) positions)
            \<and> (odd (length positions) \<longrightarrow>
                 calc_median positions axis = Inr (ys ! (length positions div 2)))
            \<and> (even (length positions) \<longrightarrow>
                 calc_median positions axis =
                   Inr [(ys ! (length positions div 2 - 1) ! 0
                          + ys ! (length positions div 2) ! 0) / 2,
                        (ys ! (length positions div 2 - 1) ! 1
                          + ys ! (length positions div 2) ! 1) / 2,
                        (ys ! (length positions div 2 - 1) ! 2
                          + ys ! (length positions div 2) ! 2) / 2])"
proof -
  define ys where "ys = sort_key (\<lambda>p. p ! axis) positions"
  define m where "m = length positions div 2"
  have len: "length ys = length positions" by (simp add: ys_def)
  have set_ys: "set ys = set positions" by (simp add: ys_def)
  have no_err: "\<not> list_ex (\<lambda>p. \<not> axis < length p) positions"
    using coords axis by (auto simp: list_ex_iff)
  have s: "sorted (map (\<lambda>p. p ! axis) ys)" by (simp add: ys_def)
  have p: "mset ys = mset positions" by (simp add: ys_def)
  have st: "\<forall>k. filter (\<lambda>p. p ! axis = k) ys = filter (\<lambda>p. p ! axis = k) positions"
    by (simp add: ys_def sort_key_stable)
  have odd_case: "calc_median positions axis = Inr (ys ! m)" if "odd (length positions)"
    using that no_err by (simp add: calc_median_def Let_def ys_def m_def odd_iff_mod_2_eq_one)
  have even_case: "calc_median positions axis =
      Inr [(ys ! (m - 1) ! 0 + ys ! m ! 0) / 2, (ys ! (m - 1) ! 1 + ys ! m ! 1) / 2,
           (ys ! (m - 1) ! 2 + ys ! m ! 2) / 2]" if ev: "even (length positions)"
  proof -
    have ar: "n \<noteq> 0 \<Longrightarrow> even n \<Longrightarrow> 1 \<le> n div 2 \<and> n div 2 < n" for n :: nat
      by presburger
    from nonempty have "length positions \<noteq> 0" by simp
    from ar [OF this ev] have m1: "1 \<le> m" and m2: "m < length ys"
      unfolding m_def len by simp_all
    then have k: "Suc (m - 1) < length ys" and km: "Suc (m - 1) = m" by simp_all
    have sl: "take 2 (drop (m - 1) ys) = [ys ! (m - 1), ys ! m]"
      using take2_drop [OF k] km by simp
    have la: "3 \<le> length (ys ! (m - 1))" and lb: "3 \<le> length (ys ! m)"
    proof -
      have "m - 1 < length ys" using k by simp
      then have "ys ! (m - 1) \<in> set positions" using set_ys nth_mem by blast
      then show "3 \<le> length (ys ! (m - 1))" using coords by blast
      have "ys ! m \<in> set positions" using set_ys nth_mem m2 by blast
      then show "3 \<le> length (ys ! m)" using coords by blast
    qed
    have "calc_median positions axis = calc_mean (take 2 (drop (m - 1) ys))"
      using ev no_err by (simp add: calc_median_def Let_def ys_def m_def even_iff_mod_2_eq_zero)
    then show ?thesis using sl calc_mean_pair [OF la lb] by simp
  qed
  show ?thesis
    using s p st odd_case even_case unfolding m_def by blast
qed

text \<open>
  Two samples tie on X: the odd case returns the first of them, coordinates
  untouched, and the even case averages the two middle ones.
\<close>

theorem calc_median_stable_middle_witness:
  "calc_median [[2, 7, 1], [1, 8, 2], [2, 9, 3]] 0 = Inr [2, 7, 1]
   \<and> calc_median [[2, 7, 1], [1, 8, 2], [2, 9, 3], [4, 0, 0]] 0 = Inr [2, 8, 2]
   \<and> (\<exists>ys. sorted (map (\<lambda>p. p ! 0) ys)
            \<and> mset ys = mset [[2, 7, 1], [1, 8, 2], [2, 9, 3 :: real]]
            \<and> (\<forall>k. filter (\<lambda>p. p ! 0 = k) ys
                      = filter (\<lambda>p. p ! 0 = k) [[2, 7, 1], [1, 8, 2], [2, 9, 3]])
            \<and> calc_median [[2, 7, 1], [1, 8, 2], [2, 9, 3]] 0 = Inr (ys ! 1))"
proof -
  have a: "[[2, 7, 1], [1, 8, 2], [2, 9, 3 :: real]] \<noteq> []" by simp
  have b: "\<forall>p \<in> set [[2, 7, 1], [1, 8, 2], [2, 9, 3 :: real]]. 3 \<le> length p" by simp
  have c: "(0 :: nat) < 3" by simp
  have d: "calc_median [[2, 7, 1], [1, 8, 2], [2, 9, 3]] 0 = Inr [2, 7, 1]"
    by (simp add: calc_median_def)
  have e: "calc_median [[2, 7, 1], [1, 8, 2], [2, 9, 3], [4, 0, 0]] 0 = Inr [2, 8, 2]"
    by (simp add: calc_median_def calc_mean_def)
  from calc_median_stable_middle [OF a b c] d e show ?thesis by simp
qed

section \<open>Pulling results\<close>

text \<open>
  Claim C8. In either session state \<^verbatim>\<open>pull_probed_results\<close> returns the buffered
  results, in the order in which \<^verbatim>\<open>run_probe\<close> appended them (each at the end),
  leaves the buffer empty, so that a second pull returns the empty list, and
  changes neither the pending flag nor the endstop wrappers.
\<close>

theorem pull_probed_results_consumes:
  "fst (pull_probed_results s) = results s
   \<and> results (snd (pull_probed_results s)) = []
   \<and> fst (pull_probed_results (snd (pull_probed_results s))) = []
   \<and> multi_probe_pending (snd (pull_probed_results s)) = multi_probe_pending s
   \<and> mcu_probes (snd (pull_probed_results s)) = mcu_probes s
   \<and> (run_probe g d s pr = (Inr u, s1, pr1) \<longrightarrow>
        (\<exists>r. fst (pull_probed_results s1) = results s @ [r]))"
  by (auto simp: pull_probed_results_def run_probe_def
           split: if_splits sum.splits option.splits prod.splits)

theorem pull_probed_results_consumes_witness:
  "run_probe example_gcmd ''z-'' active_session steady_printer
     = (Inr (), fst (snd (run_probe example_gcmd ''z-'' active_session steady_printer)),
        snd (snd (run_probe example_gcmd ''z-'' active_session steady_printer)))
   \<and> (\<exists>r. fst (pull_probed_results
                 (fst (snd (run_probe example_gcmd ''z-'' active_session steady_printer))))
            = results active_session @ [r])
   \<and> multi_probe_pending (snd (pull_probed_results active_session))"
proof -
  have "fst (run_probe example_gcmd ''z-'' active_session steady_printer) = Inr ()"
    by (simp add: example_defs probe_defs bounce_defs sampling_defs)
  then have run: "run_probe example_gcmd ''z-'' active_session steady_printer
     = (Inr (), fst (snd (run_probe example_gcmd ''z-'' active_session steady_printer)),
        snd (snd (run_probe example_gcmd ''z-'' active_session steady_printer)))"
    by (simp add: prod_eq_iff)
  have act: "multi_probe_pending active_session"
    by (simp add: active_session_def)
  from run act
    pull_probed_results_consumes [of active_session example_gcmd "''z-''" steady_printer "()"
      "fst (snd (run_probe example_gcmd ''z-'' active_session steady_printer))"
      "snd (snd (run_probe example_gcmd ''z-'' active_session steady_printer))"]
  show ?thesis by simp
qed

section \<open>The sample buffer\<close>

text \<open>
  Claim C4. At every pass of the sampling loop of \<^verbatim>\<open>run_probe\<close> the buffer of raw
  samples holds at most \<^verbatim>\<open>samples\<close> positions (the getter admits no sample count
  below 1), and exactly that many when the loop hands it to the aggregation;
  and whenever a new sample brings the spread along the probing axis above the
  tolerance and sampling goes on, it goes on with the empty buffer, all samples
  of the point being dropped, and one retry more.
\<close>

theorem sampling_buffer_bounded:
  assumes reach: "sampling_reach params d axis sense s (sampling_start pr) st"
    and samples: "1 \<le> p_samples params"
  shows "int (length (smp_positions st)) \<le> p_samples params
       \<and> (\<forall>pos pr1 st1.
            bouncing_probe (p_probe_speed params) d s (smp_printer st) = (Inr pos, pr1)
            \<longrightarrow> p_samples_tolerance params < spread axis (smp_positions st @ [pos])
            \<longrightarrow> sample_step params d axis sense s st = Inr st1
            \<longrightarrow> smp_positions st1 = [] \<and> smp_retries st1 = smp_retries st + 1)
       \<and> (\<forall>stf. sample_loop params d axis sense s st = Inr stf
            \<longrightarrow> int (length (smp_positions stf)) = p_samples params)"
proof -
  have init: "0 \<le> smp_retries (sampling_start pr)"
    "int (length (smp_positions (sampling_start pr))) \<le> p_samples params"
    "\<forall>p \<in> set (smp_positions (sampling_start pr)). axis < length p"
    using samples by (simp_all add: sampling_start_def)
  note inv = reach_invariant [OF _ init]
  from inv [OF reach] have a: "int (length (smp_positions st)) \<le> p_samples params"
    by simp
  have b: "smp_positions st1 = [] \<and> smp_retries st1 = smp_retries st + 1"
    if bp: "bouncing_probe (p_probe_speed params) d s (smp_printer st) = (Inr pos, pr1)"
      and viol: "p_samples_tolerance params < spread axis (smp_positions st @ [pos])"
      and step: "sample_step params d axis sense s st = Inr st1"
    for pos pr1 st1
  proof -
    from sample_step_cases [OF step] bp viol show ?thesis by auto
  qed
  have c: "int (length (smp_positions stf)) = p_samples params"
    if fin: "sample_loop params d axis sense s st = Inr stf" for stf
  proof -
    from sample_loop_reach [OF fin reach] have
      r: "sampling_reach params d axis sense s (sampling_start pr) stf" and
      g: "\<not> int (length (smp_positions stf)) < p_samples params"
      by simp_all
    from inv [OF r] g show ?thesis by simp
  qed
  from a b c show ?thesis by blast
qed

theorem sampling_buffer_bounded_witness:
  "int (length (smp_positions (two_samples 1))) \<le> 3
   \<and> smp_positions (projr (sample_step (example_params 1) ''z-'' 2 (- 1) active_session
                             (two_samples 1))) = []"
proof -
  let ?P = "example_params 1"
  let ?pr1 = "snd (bouncing_probe 5 ''z-'' active_session (smp_printer (two_samples 1)))"
  let ?st1 = "projr (sample_step ?P ''z-'' 2 (- 1) active_session (two_samples 1))"
  have samples: "1 \<le> p_samples ?P" by (simp add: example_params_def)
  have bp: "bouncing_probe (p_probe_speed ?P) ''z-'' active_session (smp_printer (two_samples 1))
              = (Inr [0, 0, 1.25], ?pr1)"
    using third_bounce [of 1] by (simp add: prod_eq_iff example_params_def)
  have viol: "p_samples_tolerance ?P < spread 2 (smp_positions (two_samples 1) @ [[0, 0, 1.25]])"
    using third_spread [of 1] by (simp add: example_params_def)
  have step: "sample_step ?P ''z-'' 2 (- 1) active_session (two_samples 1) = Inr ?st1"
    using third_step_retry by simp
  note bounded = sampling_buffer_bounded [OF two_samples_reach samples]
  from bounded have a: "int (length (smp_positions (two_samples 1))) \<le> p_samples ?P"
    by (rule conjunct1)
  from bounded bp viol step have "smp_positions ?st1 = []"
    by blast
  with a show ?thesis by (simp add: example_params_def)
qed

section \<open>Exhausted retries\<close>

text \<open>
  Claim C5. When, at some pass of the sampling loop, a sample brings the spread
  above the tolerance and the retries made are no fewer than
  \<^verbatim>\<open>samples_tolerance_retries\<close>, or that number is 0, \<^verbatim>\<open>run_probe\<close> raises the
  command error ``Probe samples exceed samples_tolerance'' and the session,
  with its result buffer, is as it was on entry.
\<close>

theorem tolerance_exceeded_is_fatal:
  assumes pending: "multi_probe_pending s"
    and params: "get_probe_params s g = Inr params"
    and dir: "direction_types d = Some (axis, sense)"
    and reach: "sampling_reach params d axis sense s (sampling_start pr) st"
    and guard: "int (length (smp_positions st)) < p_samples params"
    and bp: "bouncing_probe (p_probe_speed params) d s (smp_printer st) = (Inr pos, pr1)"
    and viol: "p_samples_tolerance params < spread axis (smp_positions st @ [pos])"
    and spent: "p_samples_tolerance_retries params \<le> smp_retries st
                \<or> p_samples_tolerance_retries params = 0"
  shows "run_probe g d s pr
           = (Inl (CommandError ''Probe samples exceed samples_tolerance''), s, pr1)"
proof -
  have init: "0 \<le> smp_retries (sampling_start pr)"
    "int (length (smp_positions (sampling_start pr))) \<le> p_samples params"
    "\<forall>p \<in> set (smp_positions (sampling_start pr)). axis < length p"
    using guard by (simp_all add: sampling_start_def)
  from reach_invariant [OF reach init] have
    nonneg: "0 \<le> smp_retries st" and
    old: "\<forall>p \<in> set (smp_positions st). axis < length p"
    by simp_all
  from spent nonneg have spent': "p_samples_tolerance_retries params \<le> smp_retries st"
    by auto
  from bouncing_probe_Inr [OF bp] dir have "length pos = 3"
    by auto
  moreover from direction_types_range [OF dir] have "axis < 3" by simp
  ultimately have ok: "\<forall>p \<in> set (smp_positions st @ [pos]). axis < length p"
    using old by simp
  have step: "sample_step params d axis sense s st
                = Inl (CommandError ''Probe samples exceed samples_tolerance'', pr1)"
    using sample_step_unfold [OF bp ok, of sense] viol spent' by simp
  have "sample_loop params d axis sense s st
          = Inl (CommandError ''Probe samples exceed samples_tolerance'', pr1)"
    using guard step by (subst sample_loop.simps) simp
  with reach_loop [OF reach] have
    "sample_loop params d axis sense s (sampling_start pr)
       = Inl (CommandError ''Probe samples exceed samples_tolerance'', pr1)"
    by simp
  then show ?thesis
    using pending params dir by (simp add: run_probe_def)
qed

theorem tolerance_exceeded_is_fatal_witness:
  "run_probe example_gcmd ''z-'' active_session drifting_printer
     = (Inl (CommandError ''Probe samples exceed samples_tolerance''), active_session,
        snd (bouncing_probe 5 ''z-'' active_session (smp_printer (two_samples 0))))
   \<and> results active_session = []"
proof -
  let ?P = "example_params 0"
  let ?pr1 = "snd (bouncing_probe 5 ''z-'' active_session (smp_printer (two_samples 0)))"
  have pending: "multi_probe_pending active_session"
    by (simp add: example_defs)
  have params: "get_probe_params active_session example_gcmd = Inr ?P"
    by (simp add: example_defs example_params_def get_probe_params_def bnd_def
          get_float_above_def get_float_minval_def get_int_minval_def)
  have dir: "direction_types ''z-'' = Some (2, - 1)"
    by (simp add: direction_types_def)
  have guard: "int (length (smp_positions (two_samples 0))) < p_samples ?P"
    by (simp add: two_samples_positions example_params_def)
  have bp: "bouncing_probe (p_probe_speed ?P) ''z-'' active_session (smp_printer (two_samples 0))
              = (Inr [0, 0, 1.25], ?pr1)"
    using third_bounce [of 0] by (simp add: prod_eq_iff example_params_def)
  have viol: "p_samples_tolerance ?P < spread 2 (smp_positions (two_samples 0) @ [[0, 0, 1.25]])"
    using third_spread [of 0] by (simp add: example_params_def)
  have spent: "p_samples_tolerance_retries ?P \<le> smp_retries (two_samples 0)
                \<or> p_samples_tolerance_retries ?P = 0"
    by (simp add: example_params_def)
  from tolerance_exceeded_is_fatal [OF pending params dir two_samples_reach guard bp viol spent]
  show ?thesis by (simp add: example_defs)
qed

section \<open>The accuracy report on a horizontal axis\<close>

text \<open>
  Claim C7 (the accuracy report takes its median and its standard deviation on
  the configured axis). For three results of a probing in X, with X = 10, 10.1,
  9.9 and Z = 5 throughout, the report gives maximum, minimum, range and average
  of X, but the median 10.1, the X of the middle element by Z, where the session's
  own median by X is 10, and the deviation 5, taken from Z against the average
  of X, where the deviation of the three X values is not 5.
\<close>

theorem probe_accuracy_uses_z:
  "probe_accuracy_stats 0 x_results = Inr (10.1, 9.9, 0.2, 10, 10.1, 5)
   \<and> calc_median x_results 0 = Inr [10, 0, 5]
   \<and> sqrt (((10 - 10)\<^sup>2 + (10.1 - 10)\<^sup>2 + (9.9 - 10)\<^sup>2) / 3) \<noteq> 5"
proof -
  have a: "probe_accuracy_stats 0 x_results = Inr (10.1, 9.9, 0.2, 10, 10.1, 5)"
    by (simp add: probe_accuracy_stats_def x_results_def bnd_def py_max_def py_min_def
          calc_probe_average_def calc_mean_def py_index_def Let_def power2_eq_square sqrt25)
  have b: "calc_median x_results 0 = Inr [10, 0, 5]"
    by (simp add: calc_median_def x_results_def)
  have c: "sqrt (((10 - 10)\<^sup>2 + (10.1 - 10)\<^sup>2 + (9.9 - 10)\<^sup>2) / 3) \<noteq> 5"
  proof
    assume "sqrt (((10 - 10)\<^sup>2 + (10.1 - 10)\<^sup>2 + (9.9 - 10)\<^sup>2) / 3) = 5"
    then have "sqrt (((10 - 10)\<^sup>2 + (10.1 - 10)\<^sup>2 + (9.9 - 10)\<^sup>2) / 3) = sqrt 25"
      by (simp only: sqrt25)
    then have "((10 - 10)\<^sup>2 + (10.1 - 10)\<^sup>2 + (9.9 - 10)\<^sup>2) / 3 = (25 :: real)"
      by (simp only: real_sqrt_eq_iff)
    then show False by (simp add: power2_eq_square)
  qed
  from a b c show ?thesis by blast
qed

section \<open>The timeout hint\<close>

text \<open>
  Claim C9 (as written: the hint is appended only for the Z axis). It fails on
  the code: a timeout of a probing move in X is raised with the hint appended.
\<close>

theorem timeout_hint_on_x_counterexample:
  "direction_types ''x+'' = Some (0, 1)
   \<and> fst (probe 5 ''x+'' example_session timeout_printer)
       = Inl (CommandError (''Timeout during endstop homing'' @ HINT_TIMEOUT))"
  by (simp add: example_defs probe_defs)

text \<open>
  Claim C9, amended. On every axis, when the probing move fails with a command
  error, \<^verbatim>\<open>_probe\<close> raises a command error with the same message, to which the
  hint is appended exactly when the message contains
  ``Timeout during endstop homing''.
\<close>

theorem probe_timeout_hint:
  assumes "check_homed pr = Inr ()"
    and "direction_types d = Some (axis, sense)"
    and "get_target_position d s pr = Inr target"
    and "axis < length (mcu_probes s)"
    and "probing_hw pr (probe_calls pr) axis target v = Failed reason halt"
  shows "fst (probe v d s pr) =
           Inl (CommandError (if str_in ''Timeout during endstop homing'' reason
                              then reason @ HINT_TIMEOUT else reason))"
  using assms by (simp add: probe_def py_index_def Let_def)

theorem probe_timeout_hint_witness:
  "fst (probe 5 ''y-'' example_session timeout_printer)
     = Inl (CommandError (''Timeout during endstop homing'' @ HINT_TIMEOUT))"
proof -
  have a: "check_homed timeout_printer = Inr ()"
    by (simp add: example_defs check_homed_def)
  have b: "direction_types ''y-'' = Some (1, - 1)"
    by (simp add: direction_types_def)
  have c: "get_target_position ''y-'' example_session timeout_printer = Inr [0, 0, 10, 0]"
    by (simp add: example_defs probe_defs)
  have d: "1 < length (mcu_probes example_session)"
    by (simp add: example_defs)
  have e: "probing_hw timeout_printer (probe_calls timeout_printer) 1 [0, 0, 10, 0] 5
             = Failed ''Timeout during endstop homing'' [0, 0, 10, 0]"
    by (simp add: example_defs)
  from probe_timeout_hint [OF a b c d e] show ?thesis by simp
qed

section \<open>Forced end of a session\<close>

text \<open>
  Claim C10 (every return of the session to idle releases the hold of the axis
  it was begun with, forced ends included). A session begun with \<^verbatim>\<open>x+\<close> on
  wrappers that do not stow on each sample holds the X wrapper. The handler of
  the command error ends it with the default direction: the session is idle
  afterwards, \<^verbatim>\<open>multi_probe_end\<close> was called on the Z wrapper, and the X wrapper
  is still held.
\<close>

theorem forced_end_releases_z:
  "(case start_probe_session ''x+'' example_session steady_printer of
      (r, s1, pr1) \<Rightarrow>
        (case handle_command_error s1 pr1 of
           (s2, pr2) \<Rightarrow>
             (r, multi_probe_pending s1, map multi (mcu_probes s1),
              multi_probe_pending s2, map multi (mcu_probes s2), trace pr2)))
   = (Inr (), True, [FIRST, OFF, OFF], False, [FIRST, OFF, OFF],
      [MultiProbeBegin 0, MultiProbeEnd 2])"
  by (simp add: example_defs start_probe_session_def handle_command_error_def
        end_probe_session_def multi_probe_begin_def multi_probe_end_def raise_probe_def
        direction_types_def py_index_def Let_def numeral_3_eq_3)

end
